theory Spec2Isabelle
  imports Main "HOL-Library.Monad_Syntax"
begin

section \<open>Characters and string helpers\<close>

text \<open>
  Strings are \<^typ>\<open>string\<close>, one \<^typ>\<open>char\<close> per code unit. The characters that
  matter to the plugin are all ASCII; the four that cannot be written inside a
  string literal of the theory are named here.
\<close>

definition dq :: char where
  "dq = CHR 0x22"

definition sq :: char where
  "sq = CHR 0x27"

definition bsl :: char where
  "bsl = CHR 0x5C"

definition nl :: char where
  "nl = CHR 0x0A"

definition cr :: char where
  "cr = CHR 0x0D"

text \<open>\<^verbatim>\<open>Array.prototype.join\<close> on an array of strings.\<close>

fun join :: "string \<Rightarrow> string list \<Rightarrow> string" where
  "join sep [] = []"
| "join sep [x] = x"
| "join sep (x # y # ys) = x @ sep @ join sep (y # ys)"

text \<open>
  \<^verbatim>\<open>String.prototype.replaceAll(search, replacement)\<close> for a search string of one
  character and a replacement without \<^verbatim>\<open>$\<close> patterns, the only way the plugin calls
  it: every occurrence of the character is replaced, left to right, and the
  replacement text is not searched again.
\<close>

fun replaceAll :: "char \<Rightarrow> string \<Rightarrow> string \<Rightarrow> string" where
  "replaceAll c r [] = []"
| "replaceAll c r (x # xs) = (if x = c then r @ replaceAll c r xs else x # replaceAll c r xs)"

section \<open>The library function \<^verbatim>\<open>path.posix.normalize\<close>\<close>

text \<open>
  \<^verbatim>\<open>path.posix.normalize\<close> belongs to Node.js, not to the repository. It is modelled
  after the Node.js documentation and implementation: the path is cut at every
  \<^verbatim>\<open>/\<close>; empty segments and \<^verbatim>\<open>.\<close> segments are dropped; a \<^verbatim>\<open>..\<close> segment removes the
  segment before it, and is kept only in a relative path that has nothing left to
  remove; a leading and a trailing separator are preserved; the empty string
  becomes \<^verbatim>\<open>.\<close>.
\<close>

fun split_slash :: "string \<Rightarrow> string list" where
  "split_slash [] = [[]]"
| "split_slash (c # cs) =
     (if c = CHR ''/'' then [] # split_slash cs
      else (case split_slash cs of
              [] \<Rightarrow> [[c]]
            | s # ss \<Rightarrow> (c # s) # ss))"

text \<open>
  \<open>normalizeString\<close>: the segments kept so far are held in reverse; the flag says
  whether \<^verbatim>\<open>..\<close> may climb above the start (true for a relative path).
\<close>

fun normalizeString :: "bool \<Rightarrow> string list \<Rightarrow> string list \<Rightarrow> string list" where
  "normalizeString allowAboveRoot acc [] = rev acc"
| "normalizeString allowAboveRoot acc (s # ss) =
     (if s = [] \<or> s = ''.'' then normalizeString allowAboveRoot acc ss
      else if s = ''..'' then
        (case acc of
           [] \<Rightarrow> normalizeString allowAboveRoot (if allowAboveRoot then [''..''] else []) ss
         | t # ts \<Rightarrow>
             if t = ''..''
             then normalizeString allowAboveRoot (if allowAboveRoot then ''..'' # acc else acc) ss
             else normalizeString allowAboveRoot ts ss)
      else normalizeString allowAboveRoot (s # acc) ss)"

definition posix_normalize :: "string \<Rightarrow> string" where
  "posix_normalize path =
     (if path = [] then ''.''
      else
        let isAbsolute = (hd path = CHR ''/'');
            trailingSeparator = (last path = CHR ''/'');
            res = join ''/'' (normalizeString (\<not> isAbsolute) [] (split_slash path))
        in if res = [] then
             (if isAbsolute then ''/'' else if trailingSeparator then ''./'' else ''.'')
           else
             (if isAbsolute then ''/'' else []) @ res @ (if trailingSeparator then ''/'' else []))"

section \<open>The Glob Normalizer\<close>

text \<open>
  The pattern handed to the glob matcher in the load hook:
  \<^verbatim>\<open>path.posix.normalize(userGlobPattern).replaceAll("(", "\\(").replaceAll(")", "\\)")\<close>.
\<close>

definition glob_normalizer :: "string \<Rightarrow> string" where
  "glob_normalizer userGlobPattern =
     replaceAll CHR '')'' [bsl, CHR '')'']
       (replaceAll CHR ''('' [bsl, CHR ''(''] (posix_normalize userGlobPattern))"

text \<open>
  The normalizer in the words of the specification: every literal parenthesis is
  preceded by a backslash, and no other character is altered.
\<close>

definition escape_char :: "char \<Rightarrow> string" where
  "escape_char c = (if c = CHR ''('' \<or> c = CHR '')'' then [bsl, c] else [c])"

definition escape_parens :: "string \<Rightarrow> string" where
  "escape_parens s = concat (map escape_char s)"

section \<open>Data of the plugin\<close>

text \<open>
  A value raised by \<^verbatim>\<open>throw\<close> or carried by a rejected promise. The plugin only ever
  reads the \<^verbatim>\<open>code\<close> property of such a value: \<open>ThrownObject c\<close> is a value whose
  \<^verbatim>\<open>code\<close> is the string \<open>c\<close>, or is absent for \<open>None\<close>; \<open>ThrownNullish\<close> is \<^verbatim>\<open>null\<close> or
  \<^verbatim>\<open>undefined\<close>, on which reading a property raises a \<^verbatim>\<open>TypeError\<close>.
\<close>

datatype thrown = ThrownNullish | ThrownObject "string option"

definition TypeError :: thrown where
  "TypeError = ThrownObject None"

text \<open>
  What becomes of the promise an \<^verbatim>\<open>async\<close> function returns: it is fulfilled with
  the returned value, it is rejected with the thrown one, or, when the returned
  value is an object whose \<^verbatim>\<open>then\<close> property is callable, it follows that thenable:
  the function is called with the two resolving functions and alone decides
  whether and how the promise settles.
\<close>

datatype 'a promise = Fulfilled 'a | Rejected thrown | Follows 'a

datatype LogLevel = Info | Error | Warn | Debug

datatype console_method = Console_error | Console_log | Console_warn

datatype log_arg = Str string | Val thrown

type_synonym console_entry = "console_method \<times> log_arg list"

record BookEmojiPluginOptions =
  debug :: "bool option"
  silent :: "bool option"

text \<open>
  Modelled from the spec: the type \<^verbatim>\<open>BookEmojiConfig\<close> is imported from
  \<^verbatim>\<open>./config.js\<close>, which is not among the sources; the specification gives it as
  \<^verbatim>\<open>{ base?: string, stories?: string }\<close>.
\<close>

record BookEmojiConfig =
  base :: "string option"
  stories :: "string option"

datatype command = Build | Serve

record ResolvedConfig =
  root :: string
  command :: command

text \<open>
  What the dynamic import of \<^verbatim>\<open>svelte.config.js\<close> yields: a module namespace whose
  \<^verbatim>\<open>default\<close> is absent or falsy (\<open>None\<close>) or a value whose \<^verbatim>\<open>bookemoji\<close> property is
  absent or falsy (\<open>None\<close>) or a \<^verbatim>\<open>BookEmojiConfig\<close>.
\<close>

record svelte_default =
  bookemoji :: "BookEmojiConfig option"

record svelte_module =
  default_export :: "svelte_default option"

text \<open>
  The file system and module loader as \<^verbatim>\<open>configResolved\<close> sees them: \<^verbatim>\<open>fs.access\<close>
  resolves (\<open>None\<close>) or rejects, the dynamic \<^verbatim>\<open>import\<close> rejects or yields a module.
\<close>

record config_world =
  fs_access :: "string \<Rightarrow> thrown option"
  import_module :: "string \<Rightarrow> thrown + svelte_module"

text \<open>An entry of fast-glob's result in object mode.\<close>

record glob_entry =
  name :: string
  path :: string

text \<open>
  The variables the hooks close over (\<^verbatim>\<open>config\<close>, \<^verbatim>\<open>bookEmojiConfig\<close>,
  \<^verbatim>\<open>userGlobPattern\<close>, \<^verbatim>\<open>projectRoot\<close>), and the lines written to the console so
  far, oldest first. A variable declared without a value is \<open>None\<close>.
\<close>

record plugin_state =
  config :: "ResolvedConfig option"
  bookEmojiConfig :: "BookEmojiConfig option"
  userGlobPattern :: string
  projectRoot :: "string option"
  console :: "console_entry list"

section \<open>Constants and logging\<close>

text \<open>
  The colouring functions of picocolors are taken as the identity (what they are
  when colours are off). The book emoji and the dash are written as their UTF-8
  bytes.
\<close>

definition plugin_prefix :: string where
  "plugin_prefix = ''  '' @ [CHR 0xF0, CHR 0x9F, CHR 0x93, CHR 0x98] @ '' bookemoji  ''"

definition virtualModuleId :: string where
  "virtualModuleId = ''virtual:bookemoji''"

definition resolvedVirtualModuleId :: string where
  "resolvedVirtualModuleId = CHR 0x00 # virtualModuleId"

definition defaultGlobPattern :: string where
  "defaultGlobPattern = ''./books/stories/**/*.book.svelte''"

definition debug_on :: "BookEmojiPluginOptions option \<Rightarrow> bool" where
  "debug_on options = (case options of None \<Rightarrow> False | Some opts \<Rightarrow> debug opts = Some True)"

fun log_entries :: "BookEmojiPluginOptions option \<Rightarrow> LogLevel \<Rightarrow> log_arg list \<Rightarrow> console_entry list" where
  "log_entries options Error args = [(Console_error, Str plugin_prefix # args)]"
| "log_entries options Info args = [(Console_log, Str plugin_prefix # args)]"
| "log_entries options Warn args = [(Console_warn, Str plugin_prefix # args)]"
| "log_entries options Debug args =
     (if debug_on options then [(Console_log, Str plugin_prefix # Str ''[debug]'' # args)] else [])"

definition log :: "BookEmojiPluginOptions option \<Rightarrow> LogLevel \<Rightarrow> log_arg list \<Rightarrow> plugin_state \<Rightarrow> plugin_state" where
  "log options logLevel args s = s\<lparr>console := console s @ log_entries options logLevel args\<rparr>"

text \<open>Decimal digits of a number, as a template literal prints it.\<close>

fun show_nat :: "nat \<Rightarrow> string" where
  "show_nat n =
     (if n < 10 then [char_of (48 + n)]
      else show_nat (n div 10) @ [char_of (48 + n mod 10)])"

text \<open>The closure variables as \<^verbatim>\<open>bookEmojiPlugin\<close> initialises them.\<close>

definition bookEmojiPlugin :: plugin_state where
  "bookEmojiPlugin =
     \<lparr>config = None, bookEmojiConfig = None, userGlobPattern = defaultGlobPattern,
      projectRoot = None, console = []\<rparr>"

text \<open>\<^verbatim>\<open>bookEmojiConfig?.base ?? ""\<close>\<close>

definition active_base :: "plugin_state \<Rightarrow> string" where
  "active_base s =
     (case bookEmojiConfig s of
        None \<Rightarrow> []
      | Some c \<Rightarrow> (case base c of None \<Rightarrow> [] | Some b \<Rightarrow> b))"

section \<open>The Module Synthesizer\<close>

text \<open>
  \<^verbatim>\<open>createExportStatements\<close> fills template literals; the fixed text of the
  templates is kept character for character, line breaks and indentation
  included. Nothing spliced into a quoted literal is escaped.
\<close>

definition story_entry :: "string \<Rightarrow> string" where
  "story_entry file =
     [dq] @ file @ [dq] @ '': import(/* @vite-ignore */ '' @ [sq] @ file @ [sq] @ ''), ''"

definition map_entry :: "string \<Rightarrow> string" where
  "map_entry a = [dq] @ a @ [dq] @ '': import('' @ [dq] @ a @ [dq] @ '')''"

definition record_entry :: "string \<Rightarrow> string" where
  "record_entry a = [dq] @ a @ [dq] @ '': null''"

definition loader_head :: string where
  "loader_head =
     ''export const loadStories = async () => {'' @ [nl] @
     ''    '' @ [nl] @
     ''    // this map lets our imports be statically analyzed'' @ [nl] @
     ''    const map = {'' @ [nl] @
     ''      ''"

definition loader_middle :: string where
  "loader_middle =
     [nl] @
     ''    };'' @ [nl] @
     [nl] @
     ''    const record = {'' @ [nl] @
     ''      ''"

definition loader_tail :: string where
  "loader_tail =
     [nl] @
     ''    };'' @ [nl] @
     [nl] @
     ''    const loadPromises = Array.from(Object.entries(map)).map(([key, loader]) => {'' @ [nl] @
     ''      return loader.then((mod) => {'' @ [nl] @
     ''        record[key] = mod.default ?? mod;'' @ [nl] @
     ''      });'' @ [nl] @
     ''    });'' @ [nl] @
     ''    '' @ [nl] @
     ''    await Promise.allSettled(loadPromises);'' @ [nl] @
     [nl] @
     ''    return record;'' @ [nl] @
     ''  };''"

definition createExportStatements :: "string \<Rightarrow> string list \<Rightarrow> string" where
  "createExportStatements b files =
     (let entries = map story_entry files;
          base_stmt = ''export const base = '' @ [dq] @ b @ [dq] @ '';'';
          stories_stmt = ''export const stories = {'' @ [nl] @ ''  '' @ join [nl] entries @ [nl] @ ''  };'';
          loadStories_stmt =
            loader_head @ join ('','' @ [nl]) (map map_entry files) @
            loader_middle @ join ('','' @ [nl]) (map record_entry files) @
            loader_tail
      in [nl] @ ''  '' @ base_stmt @ [nl] @ ''  '' @ stories_stmt @ [nl] @ ''  '' @ loadStories_stmt @ [nl] @ ''  '')"

section \<open>The hooks\<close>

text \<open>
  Each hook takes the state and returns the state it leaves. The asynchronous
  hooks also return how their promise settles. \<^verbatim>\<open>configureServer\<close> only prints a
  URL and is left out.
\<close>

subsection \<open>\<^verbatim>\<open>configResolved\<close>\<close>

definition msg_config_found :: "command \<Rightarrow> string \<Rightarrow> string" where
  "msg_config_found cmd pat =
     ''config found '' @ [CHR 0xE2, CHR 0x80, CHR 0x94] @ '' '' @
     (if cmd = Build then ''building stories from'' else ''watching'') @ '' '' @ pat"

definition msg_no_bookemoji :: string where
  "msg_no_bookemoji = ''bookemoji not found in svelte.config.js''"

definition msg_no_stories :: string where
  "msg_no_stories =
     ''svelte.config.js'' @ [sq] @ ''s '' @ [dq] @ ''bookemoji'' @ [dq] @
     '' does not contain a valid '' @ [dq] @ ''stories'' @ [dq] @ '' value''"

definition msg_not_found :: string where
  "msg_not_found = ''svelte.config.js not found.''"

text \<open>
  The body of the \<^verbatim>\<open>try\<close> block: \<open>Inl e\<close> when \<^verbatim>\<open>fs.access\<close> or the import throws
  \<open>e\<close>, with the state as it is at that moment. \<^verbatim>\<open>path.normalize\<close> is taken to be
  the POSIX one.
\<close>

definition configResolved_try ::
  "BookEmojiPluginOptions option \<Rightarrow> config_world \<Rightarrow> ResolvedConfig \<Rightarrow> string \<Rightarrow> plugin_state
   \<Rightarrow> (thrown + unit) \<times> plugin_state" where
  "configResolved_try options world resolvedConfig configFilePath s =
     (let s1 = log options Debug [Str ''Attempting import of configFilePath:'', Str configFilePath] s
      in case fs_access world configFilePath of
           Some e \<Rightarrow> (Inl e, s1)
         | None \<Rightarrow>
            (let s2 = log options Debug [Str ''Importing configFilePath:'', Str configFilePath] s1
             in case import_module world (''file://'' @ posix_normalize configFilePath) of
                  Inl e \<Rightarrow> (Inl e, s2)
                | Inr svelteConfig \<Rightarrow>
                   (let s3 =
                          (case default_export svelteConfig of
                             None \<Rightarrow> s2
                           | Some d \<Rightarrow>
                              (let pat = (case bookemoji d of
                                            None \<Rightarrow> []
                                          | Some c \<Rightarrow> (case stories c of None \<Rightarrow> [] | Some p \<Rightarrow> p))
                               in log options Info
                                    [Str (msg_config_found (command resolvedConfig) pat)]
                                    (s2\<lparr>bookEmojiConfig := bookemoji d, userGlobPattern := pat\<rparr>)))
                    in (Inr (),
                        if bookEmojiConfig s3 = None then log options Warn [Str msg_no_bookemoji] s3
                        else if userGlobPattern s3 = [] then log options Warn [Str msg_no_stories] s3
                        else s3))))"

definition configResolved ::
  "BookEmojiPluginOptions option \<Rightarrow> config_world \<Rightarrow> ResolvedConfig \<Rightarrow> plugin_state
   \<Rightarrow> unit promise \<times> plugin_state" where
  "configResolved options world resolvedConfig s =
     (let s1 = s\<lparr>config := Some resolvedConfig, projectRoot := Some (root resolvedConfig)\<rparr>;
          s2 = log options Debug [Str ''projectRoot'', Str (root resolvedConfig)] s1;
          configFilePath = root resolvedConfig @ ''/svelte.config.js''
      in case configResolved_try options world resolvedConfig configFilePath s2 of
           (Inr u, s3) \<Rightarrow> (Fulfilled (), s3)
         | (Inl e, s3) \<Rightarrow>
            (case e of
               ThrownNullish \<Rightarrow> (Rejected TypeError, s3)
             | ThrownObject code \<Rightarrow>
                 if code = Some ''ENOENT''
                 then (Fulfilled (), log options Error [Str msg_not_found] s3)
                 else (Fulfilled (),
                       log options Warn [Str ''An unknown error when trying to load config:'', Val e] s3)))"

subsection \<open>\<^verbatim>\<open>resolveId\<close>\<close>

text \<open>\<open>None\<close> is the \<^verbatim>\<open>null\<close> that leaves the specifier to other resolvers.\<close>

definition resolveId :: "string \<Rightarrow> string option" where
  "resolveId source = (if source = virtualModuleId then Some resolvedVirtualModuleId else None)"

subsection \<open>\<^verbatim>\<open>load\<close>\<close>

definition msg_root_not_set :: string where
  "msg_root_not_set =
     ''projectRoot not set. '' @ [dq] @ ''configResolved'' @ [dq] @
     '' might not have run yet. Returning empty array.''"

definition msg_escaping :: "string \<Rightarrow> string" where
  "msg_escaping pat = ''escaping parenthesis in '' @ [dq] @ pat @ [dq] @ '' for globbing''"

definition msg_searching :: "string \<Rightarrow> string \<Rightarrow> string" where
  "msg_searching glob rootDir =
     ''Searching for files with pattern '' @ [dq] @ glob @ [dq] @
     '' relative to '' @ [dq] @ rootDir @ [dq]"

definition msg_found :: "nat \<Rightarrow> string" where
  "msg_found n = ''Found '' @ show_nat n @ '' '' @ (if n = 1 then ''story'' else ''stories'')"

text \<open>
  The body of the \<^verbatim>\<open>try\<close> block of \<^verbatim>\<open>load\<close>, entered with a truthy \<^verbatim>\<open>projectRoot\<close>.
  The call of fast-glob is the parameter \<open>fg\<close>, applied to the pattern and the
  \<^verbatim>\<open>cwd\<close> option (the other options are constants); it yields the entries or
  throws. Reading \<^verbatim>\<open>config.command\<close> of an unset \<^verbatim>\<open>config\<close> is a \<^verbatim>\<open>TypeError\<close>.
\<close>

definition load_try ::
  "BookEmojiPluginOptions option \<Rightarrow> (string \<Rightarrow> string \<Rightarrow> thrown + glob_entry list) \<Rightarrow> string
   \<Rightarrow> plugin_state \<Rightarrow> (thrown + string) \<times> plugin_state" where
  "load_try options fg rootDir s =
     (let pat = userGlobPattern s;
          s1 = log options Debug [Str ''full search path:'', Str (posix_normalize pat)] s;
          s2 = (if CHR ''('' \<in> set pat \<or> CHR '')'' \<in> set pat
                then log options Debug [Str (msg_escaping pat)] s1 else s1);
          glob = glob_normalizer pat;
          s3 = log options Debug [Str (msg_searching glob rootDir)] s2;
          s4 = log options Debug [Str ''Original:'', Str pat] s3
      in case fg glob (posix_normalize rootDir) of
           Inl e \<Rightarrow> (Inl e, s4)
         | Inr files \<Rightarrow>
            (case config s4 of
               None \<Rightarrow> (Inl TypeError, s4)
             | Some c \<Rightarrow>
                (let s5 = (if command c = Build then log options Info [Str []] s4 else s4);
                     s6 = log options Info [Str (msg_found (length files))] s5;
                     s7 = foldl (\<lambda>st f. log options Debug [Str ''- '', Str (name f)] st) s6 files
                 in (Inr (createExportStatements (active_base s7) (map (\<lambda>f. ''./'' @ path f) files)),
                     s7))))"

text \<open>
  \<open>Fulfilled None\<close> is the \<^verbatim>\<open>null\<close> that leaves the id to other plugins. An unset and
  an empty \<^verbatim>\<open>projectRoot\<close> are both falsy. The \<^verbatim>\<open>catch\<close> block writes to
  \<^verbatim>\<open>console.error\<close> directly.
\<close>

definition load_root_not_set ::
  "BookEmojiPluginOptions option \<Rightarrow> plugin_state \<Rightarrow> string option promise \<times> plugin_state" where
  "load_root_not_set options s =
     (let s1 = log options Error [Str msg_root_not_set] s
      in (Fulfilled (Some (createExportStatements (active_base s1) [])), s1))"

definition load ::
  "BookEmojiPluginOptions option \<Rightarrow> (string \<Rightarrow> string \<Rightarrow> thrown + glob_entry list) \<Rightarrow> plugin_state
   \<Rightarrow> string \<Rightarrow> string option promise \<times> plugin_state" where
  "load options fg s ident =
     (if ident = resolvedVirtualModuleId then
        (case projectRoot s of
           None \<Rightarrow> load_root_not_set options s
         | Some rootDir \<Rightarrow>
             if rootDir = [] then load_root_not_set options s
             else
               (case load_try options fg rootDir s of
                  (Inr text, s1) \<Rightarrow> (Fulfilled (Some text), s1)
                | (Inl e, s1) \<Rightarrow>
                    (Fulfilled (Some (createExportStatements (active_base s1) [])),
                     s1\<lparr>console := console s1 @
                          [(Console_error, [Str plugin_prefix, Str ''Error globbing files:'', Val e])]\<rparr>)))
      else (Fulfilled None, s))"

subsection \<open>The states a plugin can be in\<close>


section \<open>Reading the synthesized module\<close>

text \<open>
  The host tool receives the text and parses it as JavaScript. The reader below
  accepts exactly the shape the synthesizer writes, and reads each string literal
  the way JavaScript does: the literal ends at the first occurrence of its own
  quote character. A backslash starts an escape sequence and a line terminator
  may not occur in a literal; in both cases the literal does not denote the raw
  characters between the quotes, and the reader gives up.
\<close>

fun read_literal :: "char \<Rightarrow> string \<Rightarrow> (string \<times> string) option" where
  "read_literal q [] = None"
| "read_literal q (c # cs) =
     (if c = q then Some ([], cs)
      else if c = bsl \<or> c = nl \<or> c = cr then None
      else map_option (\<lambda>(v, r). (c # v, r)) (read_literal q cs))"

text \<open>\<open>expect p s\<close> removes the fixed text \<open>p\<close> from the front of \<open>s\<close>.\<close>

fun expect :: "string \<Rightarrow> string \<Rightarrow> string option" where
  "expect [] s = Some s"
| "expect (p # ps) [] = None"
| "expect (p # ps) (c # cs) = (if p = c then expect ps cs else None)"

text \<open>\<^verbatim>\<open>"key": import(/* @vite-ignore */ 'target'), \<close>\<close>

definition read_story_entry :: "string \<Rightarrow> ((string \<times> string) \<times> string) option" where
  "read_story_entry s = do {
     s1 \<leftarrow> expect [dq] s;
     (k, s2) \<leftarrow> read_literal dq s1;
     s3 \<leftarrow> expect ('': import(/* @vite-ignore */ '' @ [sq]) s2;
     (t, s4) \<leftarrow> read_literal sq s3;
     s5 \<leftarrow> expect ''), '' s4;
     Some ((k, t), s5)
   }"

text \<open>\<^verbatim>\<open>"key": import("target")\<close>\<close>

definition read_map_entry :: "string \<Rightarrow> ((string \<times> string) \<times> string) option" where
  "read_map_entry s = do {
     s1 \<leftarrow> expect [dq] s;
     (k, s2) \<leftarrow> read_literal dq s1;
     s3 \<leftarrow> expect ('': import('' @ [dq]) s2;
     (t, s4) \<leftarrow> read_literal dq s3;
     s5 \<leftarrow> expect '')'' s4;
     Some ((k, t), s5)
   }"

text \<open>\<^verbatim>\<open>"key": null\<close>\<close>

definition read_record_entry :: "string \<Rightarrow> (string \<times> string) option" where
  "read_record_entry s = do {
     s1 \<leftarrow> expect [dq] s;
     (k, s2) \<leftarrow> read_literal dq s1;
     s3 \<leftarrow> expect '': null'' s2;
     Some (k, s3)
   }"

text \<open>
  One or more entries divided by \<open>sep\<close> and closed by \<open>close\<close>. Every entry uses up
  at least one character, so the length of the text is fuel enough.
\<close>

fun read_list ::
  "(string \<Rightarrow> ('a \<times> string) option) \<Rightarrow> string \<Rightarrow> string \<Rightarrow> nat \<Rightarrow> string \<Rightarrow> ('a list \<times> string) option" where
  "read_list entry sep close 0 s = None"
| "read_list entry sep close (Suc n) s =
     (case entry s of
        None \<Rightarrow> None
      | Some (x, r) \<Rightarrow>
         (case expect close r of
            Some r1 \<Rightarrow> Some ([x], r1)
          | None \<Rightarrow>
             (case expect sep r of
                None \<Rightarrow> None
              | Some r1 \<Rightarrow> map_option (\<lambda>(xs, r2). (x # xs, r2)) (read_list entry sep close n r1))))"

definition read_items ::
  "(string \<Rightarrow> ('a \<times> string) option) \<Rightarrow> string \<Rightarrow> string \<Rightarrow> string \<Rightarrow> ('a list \<times> string) option" where
  "read_items entry sep close s =
     (case expect close s of
        Some r \<Rightarrow> Some ([], r)
      | None \<Rightarrow> read_list entry sep close (length s) s)"

text \<open>
  What the text of a synthesized module says: the value of \<^verbatim>\<open>base\<close>, the entries
  of the \<^verbatim>\<open>stories\<close> literal (key and import target), and inside \<^verbatim>\<open>loadStories\<close>
  the entries of the \<^verbatim>\<open>map\<close> literal and the keys of the \<^verbatim>\<open>record\<close> literal.
\<close>

record module_text =
  m_base :: string
  m_stories :: "(string \<times> string) list"
  m_map :: "(string \<times> string) list"
  m_record :: "string list"

text \<open>
  In an object literal the key \<^verbatim>\<open>"__proto__"\<close> sets the prototype instead of defining
  a property, and a literal with two such keys is a syntax error.
\<close>

definition proto_ok :: "string list \<Rightarrow> bool" where
  "proto_ok ks = (length (filter (\<lambda>k. k = ''__proto__'') ks) \<le> 1)"

text \<open>The fixed text around the literals, outside \<^verbatim>\<open>loadStories\<close>.\<close>

definition module_open :: string where
  "module_open = [nl] @ ''  export const base = '' @ [dq]"

definition stories_open :: string where
  "stories_open = '';'' @ [nl] @ ''  export const stories = {'' @ [nl] @ ''  ''"

definition stories_close :: string where
  "stories_close = [nl] @ ''  };''"

definition loader_open :: string where
  "loader_open = [nl] @ ''  '' @ loader_head"

definition comma_nl :: string where
  "comma_nl = '','' @ [nl]"

definition module_close :: string where
  "module_close = [nl] @ ''  ''"

definition read_module :: "string \<Rightarrow> module_text option" where
  "read_module text = do {
     s1 \<leftarrow> expect module_open text;
     (b, s2) \<leftarrow> read_literal dq s1;
     s3 \<leftarrow> expect stories_open s2;
     (st, s4) \<leftarrow> read_items read_story_entry [nl] stories_close s3;
     s5 \<leftarrow> expect loader_open s4;
     (mp, s6) \<leftarrow> read_items read_map_entry comma_nl loader_middle s5;
     (rc, s7) \<leftarrow> read_items read_record_entry comma_nl loader_tail s6;
     (if s7 = module_close \<and> proto_ok (map fst st) \<and> proto_ok (map fst mp) \<and> proto_ok rc
      then Some \<lparr>m_base = b, m_stories = st, m_map = mp, m_record = rc\<rparr>
      else None)
   }"

section \<open>Running the synthesized \<^verbatim>\<open>loadStories\<close>\<close>

text \<open>
  A value of the running module: \<^verbatim>\<open>null\<close>, \<^verbatim>\<open>undefined\<close>, a module namespace object
  (numbered, with its \<^verbatim>\<open>default\<close> binding if it has one), a function or class
  (numbered), or any other value (numbered). Only functions and classes are
  callable.
\<close>

datatype js_value = JNull | JUndefined | JOther nat | JFunction nat | JModule nat "js_value option"

fun callable :: "js_value \<Rightarrow> bool" where
  "callable (JFunction f) = True"
| "callable v = False"

text \<open>How the promise of one dynamic \<^verbatim>\<open>import\<close> settles.\<close>

datatype import_result = ImportResolves nat "js_value option" | ImportRejects thrown

text \<open>
  The own properties of an object, with distinct keys. The list is in the order
  of definition, and setting a property that exists keeps its place; JavaScript
  enumerates integer-like keys first, so only the keys and their values are
  meant, not their order.
\<close>

fun set_property :: "string \<Rightarrow> 'v \<Rightarrow> (string \<times> 'v) list \<Rightarrow> (string \<times> 'v) list" where
  "set_property k v [] = [(k, v)]"
| "set_property k v (p # ps) = (if fst p = k then (k, v) # ps else p # set_property k v ps)"

definition object_literal :: "(string \<times> 'v) list \<Rightarrow> (string \<times> 'v) list" where
  "object_literal kvs =
     foldl (\<lambda>obj (k, v). set_property k v obj) [] (filter (\<lambda>(k, v). k \<noteq> ''__proto__'') kvs)"

text \<open>\<^verbatim>\<open>mod.default ?? mod\<close> for the module numbered \<open>i\<close> with default binding \<open>d\<close>.\<close>

fun default_or_self :: "nat \<Rightarrow> js_value option \<Rightarrow> js_value" where
  "default_or_self i None = JModule i None"
| "default_or_self i (Some v) =
     (if v = JNull \<or> v = JUndefined then JModule i (Some v) else v)"

text \<open>
  The body of \<^verbatim>\<open>loadStories\<close>. Every \<^verbatim>\<open>import\<close> of the \<^verbatim>\<open>map\<close> literal is started
  when the literal is evaluated; \<open>imports\<close> says how the import of a specifier
  settles. The callback given to \<^verbatim>\<open>then\<close> runs for the imports that resolve and
  writes \<^verbatim>\<open>record[key]\<close>; a rejected import leaves the record alone, and
  \<^verbatim>\<open>Promise.allSettled\<close> resolves in either case. The keys of \<^verbatim>\<open>Object.entries(map)\<close>
  are distinct, so the order in which the callbacks run does not matter.
  \<^verbatim>\<open>return record\<close> then resolves the promise of \<^verbatim>\<open>loadStories\<close> with the record: a
  record whose \<^verbatim>\<open>then\<close> property holds a callable value is a thenable, which the
  promise follows; any other record fulfils it.
\<close>

definition settle :: "string \<times> import_result \<Rightarrow> (string \<times> js_value) list \<Rightarrow> (string \<times> js_value) list" where
  "settle entry rec =
     (case snd entry of
        ImportResolves i d \<Rightarrow> set_property (fst entry) (default_or_self i d) rec
      | ImportRejects e \<Rightarrow> rec)"

definition loadStories :: "(string \<Rightarrow> import_result) \<Rightarrow> module_text \<Rightarrow> (string \<times> js_value) list promise" where
  "loadStories imports m =
     (let map_obj = object_literal (map (\<lambda>(k, t). (k, imports t)) (m_map m));
          record_obj = object_literal (map (\<lambda>k. (k, JNull)) (m_record m));
          record_end = fold settle map_obj record_obj
      in case map_of record_end ''then'' of
           None \<Rightarrow> Fulfilled record_end
         | Some v \<Rightarrow> if callable v then Follows record_end else Fulfilled record_end)"

text \<open>
  Evaluating the text as a module and calling its \<^verbatim>\<open>loadStories\<close>; \<open>None\<close> when
  the text is not a module.
\<close>

definition run_loadStories :: "(string \<Rightarrow> import_result) \<Rightarrow> string \<Rightarrow> (string \<times> js_value) list promise option" where
  "run_loadStories imports text = map_option (loadStories imports) (read_module text)"

text \<open>The inputs on which the synthesized literals denote the strings put into them.\<close>

definition plain_base :: "string \<Rightarrow> bool" where
  "plain_base b = (dq \<notin> set b \<and> bsl \<notin> set b \<and> nl \<notin> set b \<and> cr \<notin> set b)"

definition plain_path :: "string \<Rightarrow> bool" where
  "plain_path f = (dq \<notin> set f \<and> sq \<notin> set f \<and> bsl \<notin> set f \<and> nl \<notin> set f \<and> cr \<notin> set f)"

section \<open>The claims about the synthesized module, in the words of the specification\<close>

text \<open>
  The \<^verbatim>\<open>stories\<close> object of a module text as claimed: the text is a module, the
  keys of the object its \<^verbatim>\<open>stories\<close> literal evaluates to are exactly the given
  paths, and every key is mapped to the import of that same path.
\<close>

definition stories_as_claimed :: "string list \<Rightarrow> string \<Rightarrow> bool" where
  "stories_as_claimed files text =
     (case read_module text of
        None \<Rightarrow> False
      | Some m \<Rightarrow>
          fst ` set (object_literal (m_stories m)) = set files \<and>
          (\<forall>e \<in> set (object_literal (m_stories m)). snd e = fst e))"

text \<open>
  The value claimed for a path: \<^verbatim>\<open>null\<close> if its import rejected, otherwise the
  module's default export, or the whole module object when the module has no
  default export.
\<close>

fun claimed_value :: "import_result \<Rightarrow> js_value" where
  "claimed_value (ImportRejects e) = JNull"
| "claimed_value (ImportResolves i None) = JModule i None"
| "claimed_value (ImportResolves i (Some v)) = v"

definition loads_as_claimed :: "(string \<Rightarrow> import_result) \<Rightarrow> string list \<Rightarrow> string \<Rightarrow> bool" where
  "loads_as_claimed imports files text =
     (case run_loadStories imports text of
        Some (Fulfilled rec) \<Rightarrow> (\<forall>p \<in> set files. map_of rec p = Some (claimed_value (imports p)))
      | _ \<Rightarrow> False)"

text \<open>
  The value of a path in the amended claim: \<^verbatim>\<open>null\<close> if its import rejected; the
  whole module object if the module has no default export, or one that is \<^verbatim>\<open>null\<close>
  or \<^verbatim>\<open>undefined\<close>; the default export otherwise.
\<close>

fun settled_value :: "import_result \<Rightarrow> js_value" where
  "settled_value (ImportRejects e) = JNull"
| "settled_value (ImportResolves i None) = JModule i None"
| "settled_value (ImportResolves i (Some JNull)) = JModule i (Some JNull)"
| "settled_value (ImportResolves i (Some JUndefined)) = JModule i (Some JUndefined)"
| "settled_value (ImportResolves i (Some v)) = v"

section \<open>Sample environments\<close>

text \<open>A project without \<^verbatim>\<open>svelte.config.js\<close>: \<^verbatim>\<open>fs.access\<close> rejects with \<^verbatim>\<open>ENOENT\<close>.\<close>

definition world_absent :: config_world where
  "world_absent =
     \<lparr>fs_access = (\<lambda>p. Some (ThrownObject (Some ''ENOENT''))),
      import_module = (\<lambda>p. Inl (ThrownObject (Some ''ERR_MODULE_NOT_FOUND'')))\<rparr>"

text \<open>A project whose \<^verbatim>\<open>svelte.config.js\<close> is \<^verbatim>\<open>export default { bookemoji: {} }\<close>.\<close>

definition world_empty_section :: config_world where
  "world_empty_section =
     \<lparr>fs_access = (\<lambda>p. None),
      import_module =
        (\<lambda>p. Inr \<lparr>default_export = Some \<lparr>bookemoji = Some \<lparr>base = None, stories = None\<rparr>\<rparr>\<rparr>)\<rparr>"

definition sample_config :: ResolvedConfig where
  "sample_config = \<lparr>root = ''/proj'', command = Serve\<rparr>"

text \<open>A directory scan that fails, and one in which only the default pattern finds a story.\<close>

definition fg_failing :: "string \<Rightarrow> string \<Rightarrow> thrown + glob_entry list" where
  "fg_failing glob cwd = Inl (ThrownObject (Some ''EACCES''))"

definition fg_default_story :: "string \<Rightarrow> string \<Rightarrow> thrown + glob_entry list" where
  "fg_default_story glob cwd =
     (if glob = ''books/stories/**/*.book.svelte''
      then Inr [\<lparr>name = ''a.book.svelte'', path = ''books/stories/a.book.svelte''\<rparr>]
      else Inr [])"


definition imports_mixed :: "string \<Rightarrow> import_result" where
  "imports_mixed t =
     (if t = ''./a.book.svelte'' then ImportRejects (ThrownObject None)
      else if t = ''./b.book.svelte'' then ImportResolves 1 None
      else if t = ''./d.book.svelte'' then ImportResolves 3 (Some JNull)
      else if t = ''./e.book.svelte'' then ImportResolves 4 (Some JUndefined)
      else ImportResolves 2 (Some (JFunction 7)))"

definition imports_null_default :: "string \<Rightarrow> import_result" where
  "imports_null_default t = ImportResolves 0 (Some JNull)"

definition imports_undefined_default :: "string \<Rightarrow> import_result" where
  "imports_undefined_default t = ImportResolves 0 (Some JUndefined)"

definition imports_function_default :: "string \<Rightarrow> import_result" where
  "imports_function_default t = ImportResolves 0 (Some (JFunction 7))"

section \<open>Properties of the Glob Normalizer\<close>

lemma replaceAll_both_parens:
  "replaceAll CHR '')'' [bsl, CHR '')''] (replaceAll CHR ''('' [bsl, CHR ''(''] s) = escape_parens s"
  by (induction s) (simp_all add: escape_parens_def escape_char_def bsl_def)

lemma glob_normalizer_eq: "glob_normalizer p = escape_parens (posix_normalize p)"
  by (simp add: glob_normalizer_def replaceAll_both_parens)

lemma escape_parens_Cons: "escape_parens (c # s) = escape_char c @ escape_parens s"
  by (simp add: escape_parens_def)

lemma escape_parens_hd: "escape_parens s = c # r \<Longrightarrow> c \<noteq> CHR ''('' \<and> c \<noteq> CHR '')''"
  by (cases s) (auto simp: escape_parens_def escape_char_def bsl_def split: if_splits)

text \<open>Escaping loses nothing: two patterns with the same escaped form are equal.\<close>

lemma escape_parens_inj: "escape_parens s = escape_parens t \<Longrightarrow> s = t"
proof (induction s arbitrary: t)
  case Nil
  then show ?case
    by (cases t) (auto simp: escape_parens_def escape_char_def split: if_splits)
next
  case (Cons c s)
  show ?case
  proof (cases t)
    case Nil
    with Cons.prems show ?thesis
      by (auto simp: escape_parens_def escape_char_def split: if_splits)
  next
    case (Cons d u)
    with Cons.prems have eq: "escape_char c @ escape_parens s = escape_char d @ escape_parens u"
      by (simp add: escape_parens_Cons)
    show ?thesis
    proof (cases "c = CHR ''('' \<or> c = CHR '')''")
      case c_paren: True
      show ?thesis
      proof (cases "d = CHR ''('' \<or> d = CHR '')''")
        case True
        with c_paren eq have "c = d" "escape_parens s = escape_parens u"
          by (auto simp: escape_char_def)
        with Cons.IH Cons show ?thesis by simp
      next
        case False
        with c_paren eq have "c # escape_parens s = escape_parens u"
          by (auto simp: escape_char_def)
        with escape_parens_hd[of u c "escape_parens s"] c_paren show ?thesis by auto
      qed
    next
      case c_plain: False
      show ?thesis
      proof (cases "d = CHR ''('' \<or> d = CHR '')''")
        case True
        with c_plain eq have "escape_parens s = d # escape_parens u"
          by (auto simp: escape_char_def)
        with escape_parens_hd[of s d "escape_parens u"] True show ?thesis by auto
      next
        case False
        with c_plain eq have "c = d" "escape_parens s = escape_parens u"
          by (auto simp: escape_char_def)
        with Cons.IH Cons show ?thesis by simp
      qed
    qed
  qed
qed

text \<open>
  Claim C2, as stated: for a pattern with a parenthesis the normalizer returns the
  pattern with a backslash before every parenthesis and nothing else changed. It
  fails on \<^verbatim>\<open>./(a)\<close>: \<^verbatim>\<open>path.posix.normalize\<close> runs first and removes the leading
  \<^verbatim>\<open>./\<close>, so the result is \<^verbatim>\<open>\(a\)\<close> and not \<^verbatim>\<open>./\(a\)\<close>.
\<close>

theorem C2_counterexample:
  "CHR ''('' \<in> set ''./(a)'' \<and> glob_normalizer ''./(a)'' \<noteq> escape_parens ''./(a)''"
  by (simp add: glob_normalizer_eq posix_normalize_def escape_parens_def escape_char_def)

text \<open>
  Claim C2, amended: for every pattern the normalizer returns the pattern as
  \<^verbatim>\<open>path.posix.normalize\<close> rewrites it, with a backslash before every literal
  parenthesis of that rewritten pattern and no other character of it altered. The
  result is the input itself with only its parentheses escaped exactly when
  \<^verbatim>\<open>path.posix.normalize\<close> leaves the input unchanged.
\<close>

theorem C2_glob_normalizer_escapes_normalized:
  "glob_normalizer p = escape_parens (posix_normalize p) \<and>
   (glob_normalizer p = escape_parens p \<longleftrightarrow> posix_normalize p = p)"
  using escape_parens_inj[of "posix_normalize p" p] by (auto simp: glob_normalizer_eq)

theorem C2_glob_normalizer_escapes_normalized_witness:
  "posix_normalize ''a(b)/*.svelte'' = ''a(b)/*.svelte'' \<and>
   glob_normalizer ''a(b)/*.svelte'' = escape_parens ''a(b)/*.svelte'' \<and>
   glob_normalizer ''a(b)/*.svelte'' = ''a'' @ [bsl] @ ''(b'' @ [bsl] @ '')/*.svelte''"
  using C2_glob_normalizer_escapes_normalized[of "''a(b)/*.svelte''"]
  by (simp add: posix_normalize_def escape_parens_def escape_char_def)

text \<open>
  Claim C3: the normalizer is not idempotent. For the pattern \<^verbatim>\<open>(\<close>, which contains
  a literal parenthesis, normalizing the normalized pattern once more gives a
  string different from the normalized pattern.
\<close>

theorem C3_glob_normalizer_not_idempotent:
  "\<exists>p. (CHR ''('' \<in> set p \<or> CHR '')'' \<in> set p) \<and>
       glob_normalizer (glob_normalizer p) \<noteq> glob_normalizer p"
  by (rule exI[of _ "''(''"])
     (simp add: glob_normalizer_eq posix_normalize_def escape_parens_def escape_char_def bsl_def)

section \<open>Reading back what the synthesizer writes\<close>

lemma expect_append [simp]: "expect p (p @ r) = Some r"
  by (induction p) simp_all

lemma read_literal_append:
  "q \<notin> set v \<Longrightarrow> bsl \<notin> set v \<Longrightarrow> nl \<notin> set v \<Longrightarrow> cr \<notin> set v \<Longrightarrow>
   read_literal q (v @ q # r) = Some (v, r)"
  by (induction v) auto

lemma read_literal_dq: "plain_path f \<Longrightarrow> read_literal dq (f @ dq # r) = Some (f, r)"
  by (simp add: plain_path_def read_literal_append)

lemma read_literal_sq: "plain_path f \<Longrightarrow> read_literal sq (f @ sq # r) = Some (f, r)"
  by (simp add: plain_path_def read_literal_append)

lemma read_story_entry_story_entry:
  "plain_path f \<Longrightarrow> read_story_entry (story_entry f @ r) = Some ((f, f), r)"
  by (simp add: read_story_entry_def story_entry_def read_literal_dq read_literal_sq)

lemma read_map_entry_map_entry:
  "plain_path f \<Longrightarrow> read_map_entry (map_entry f @ r) = Some ((f, f), r)"
  by (simp add: read_map_entry_def map_entry_def read_literal_dq)

lemma read_record_entry_record_entry:
  "plain_path f \<Longrightarrow> read_record_entry (record_entry f @ r) = Some (f, r)"
  by (simp add: read_record_entry_def record_entry_def read_literal_dq)

lemma join_Cons_nonempty: "fs \<noteq> [] \<Longrightarrow> join sep (x # fs) = x @ sep @ join sep fs"
  by (cases fs) simp_all

lemma read_list_join:
  assumes entry: "\<And>f r. f \<in> set fs \<Longrightarrow> entry (render f @ r) = Some (val f, r)"
    and not_close: "\<And>f r. expect close (sep @ render f @ r) = None"
    and "fs \<noteq> []" and "length fs \<le> n"
  shows "read_list entry sep close n (join sep (map render fs) @ close @ r) = Some (map val fs, r)"
  using assms(1,3,4)
proof (induction fs arbitrary: n)
  case Nil
  then show ?case by simp
next
  case (Cons f fs)
  then obtain m where n: "n = Suc m" by (cases n) auto
  have f: "\<And>r. entry (render f @ r) = Some (val f, r)"
    using Cons.prems(1) by simp
  show ?case
  proof (cases fs)
    case Nil
    with f n show ?thesis by simp
  next
    case (Cons g gs)
    let ?rest = "join sep (map render fs) @ close @ r"
    have IH: "read_list entry sep close m ?rest = Some (map val fs, r)"
      using Cons.IH[of m] Cons.prems n Cons by simp
    obtain t where t: "?rest = render g @ t"
      using Cons by (cases gs) simp_all
    have nc: "expect close (sep @ ?rest) = None"
      unfolding t by (rule not_close)
    have "join sep (map render (f # fs)) @ close @ r = render f @ sep @ ?rest"
      using Cons by (simp add: join_Cons_nonempty)
    then show ?thesis
      using f[of "sep @ ?rest"] nc IH n by simp
  qed
qed

lemma length_join_ge:
  "(\<And>f. f \<in> set fs \<Longrightarrow> render f \<noteq> []) \<Longrightarrow> length fs \<le> length (join sep (map render fs))"
proof (induction fs)
  case Nil
  then show ?case by simp
next
  case (Cons f fs)
  then have "render f \<noteq> []" by simp
  then have "1 \<le> length (render f)" by (cases "render f") auto
  with Cons show ?case by (cases fs) auto
qed

lemma read_items_join:
  assumes entry: "\<And>f r. f \<in> set fs \<Longrightarrow> entry (render f @ r) = Some (val f, r)"
    and not_close: "\<And>f r. expect close (sep @ render f @ r) = None"
    and not_close0: "\<And>f r. expect close (render f @ r) = None"
    and nonempty: "\<And>f. render f \<noteq> []"
  shows "read_items entry sep close (join sep (map render fs) @ close @ r) = Some (map val fs, r)"
proof (cases fs)
  case Nil
  then show ?thesis by (simp add: read_items_def)
next
  case (Cons g gs)
  have "expect close (join sep (map render fs) @ close @ r) = None"
    using Cons not_close0[of g] by (cases gs) simp_all
  moreover have "length fs \<le> length (join sep (map render fs) @ close @ r)"
    using length_join_ge[of fs render sep] nonempty by simp
  moreover have "read_list entry sep close (length (join sep (map render fs) @ close @ r))
      (join sep (map render fs) @ close @ r) = Some (map val fs, r)" if "length fs \<le> length (join sep (map render fs) @ close @ r)"
    using that Cons by (intro read_list_join entry not_close) simp_all
  ultimately show ?thesis
    by (simp add: read_items_def)
qed


lemma createExportStatements_shape:
  "createExportStatements b files =
     module_open @ b @ dq # stories_open @
     join [nl] (map story_entry files) @ stories_close @ loader_open @
     join comma_nl (map map_entry files) @ loader_middle @
     join comma_nl (map record_entry files) @ loader_tail @ module_close"
  by (simp add: createExportStatements_def module_open_def stories_open_def stories_close_def
      loader_open_def comma_nl_def module_close_def)

lemma read_stories_items:
  assumes "\<forall>f \<in> set files. plain_path f"
  shows "read_items read_story_entry [nl] stories_close
           (join [nl] (map story_entry files) @ stories_close @ r) = Some (map (\<lambda>f. (f, f)) files, r)"
proof (rule read_items_join)
  show "read_story_entry (story_entry f @ r) = Some ((f, f), r)" if "f \<in> set files" for f r
    using that assms by (simp add: read_story_entry_story_entry)
  show "expect stories_close ([nl] @ story_entry f @ r) = None" for f r
    by (simp add: story_entry_def stories_close_def dq_def)
  show "expect stories_close (story_entry f @ r) = None" for f r
    by (simp add: story_entry_def stories_close_def dq_def nl_def)
  show "story_entry f \<noteq> []" for f
    by (simp add: story_entry_def)
qed

lemma read_map_items:
  assumes "\<forall>f \<in> set files. plain_path f"
  shows "read_items read_map_entry comma_nl loader_middle
           (join comma_nl (map map_entry files) @ loader_middle @ r) = Some (map (\<lambda>f. (f, f)) files, r)"
proof (rule read_items_join)
  show "read_map_entry (map_entry f @ r) = Some ((f, f), r)" if "f \<in> set files" for f r
    using that assms by (simp add: read_map_entry_map_entry)
  show "expect loader_middle (comma_nl @ map_entry f @ r) = None" for f r
    by (simp add: map_entry_def loader_middle_def comma_nl_def nl_def)
  show "expect loader_middle (map_entry f @ r) = None" for f r
    by (simp add: map_entry_def loader_middle_def dq_def nl_def)
  show "map_entry f \<noteq> []" for f
    by (simp add: map_entry_def)
qed

lemma read_record_items:
  assumes "\<forall>f \<in> set files. plain_path f"
  shows "read_items read_record_entry comma_nl loader_tail
           (join comma_nl (map record_entry files) @ loader_tail @ r) = Some (map (\<lambda>f. f) files, r)"
proof (rule read_items_join)
  show "read_record_entry (record_entry f @ r) = Some (f, r)" if "f \<in> set files" for f r
    using that assms by (simp add: read_record_entry_record_entry)
  show "expect loader_tail (comma_nl @ record_entry f @ r) = None" for f r
    by (simp add: record_entry_def loader_tail_def comma_nl_def nl_def)
  show "expect loader_tail (record_entry f @ r) = None" for f r
    by (simp add: record_entry_def loader_tail_def dq_def nl_def)
  show "record_entry f \<noteq> []" for f
    by (simp add: record_entry_def)
qed

lemma read_literal_base: "plain_base b \<Longrightarrow> read_literal dq (b @ dq # r) = Some (b, r)"
  by (simp add: plain_base_def read_literal_append)

lemma read_module_createExportStatements:
  assumes "plain_base b" and "\<forall>f \<in> set files. plain_path f" and "proto_ok files"
  shows "read_module (createExportStatements b files) =
         Some \<lparr>m_base = b, m_stories = map (\<lambda>f. (f, f)) files,
               m_map = map (\<lambda>f. (f, f)) files, m_record = files\<rparr>"
  using assms
  by (simp add: read_module_def createExportStatements_shape read_literal_base
      read_stories_items read_map_items read_record_items comp_def)

section \<open>What the synthesized \<^verbatim>\<open>loadStories\<close> returns\<close>

lemma map_of_set_property: "map_of (set_property k v obj) = (map_of obj)(k \<mapsto> v)"
  by (induction obj) (auto simp: fun_eq_iff)

lemma keys_set_property: "fst ` set (set_property k v obj) = insert k (fst ` set obj)"
  by (induction obj) auto

lemma distinct_set_property:
  "distinct (map fst obj) \<Longrightarrow> distinct (map fst (set_property k v obj))"
proof (induction obj)
  case Nil
  then show ?case by simp
next
  case (Cons p obj)
  have "fst ` set (set_property k v obj) = insert k (fst ` set obj)"
    by (rule keys_set_property)
  with Cons show ?case by auto
qed

lemma foldl_set_property:
  "map_of (foldl (\<lambda>obj (k, v). set_property k v obj) acc (map (\<lambda>f. (f, g f)) files)) k =
     (if k \<in> set files then Some (g k) else map_of acc k)"
  by (induction files arbitrary: acc) (auto simp: map_of_set_property)

lemma foldl_set_property_keys:
  "fst ` set (foldl (\<lambda>obj (k, v). set_property k v obj) acc (map (\<lambda>f. (f, g f)) files)) =
     fst ` set acc \<union> set files"
  by (induction files arbitrary: acc) (auto simp: keys_set_property)

lemma foldl_set_property_distinct:
  "distinct (map fst acc) \<Longrightarrow>
   distinct (map fst (foldl (\<lambda>obj (k, v). set_property k v obj) acc (map (\<lambda>f. (f, g f)) files)))"
  by (induction files arbitrary: acc) (auto simp: distinct_set_property)

lemma filter_proto:
  "''__proto__'' \<notin> set files \<Longrightarrow>
   filter (\<lambda>(k, v). k \<noteq> ''__proto__'') (map (\<lambda>f. (f, g f)) files) = map (\<lambda>f. (f, g f)) files"
  by (induction files) auto

lemma object_literal_lookup:
  "''__proto__'' \<notin> set files \<Longrightarrow>
   map_of (object_literal (map (\<lambda>f. (f, g f)) files)) k = (if k \<in> set files then Some (g k) else None)"
  by (simp add: object_literal_def filter_proto foldl_set_property)

lemma object_literal_keys:
  "''__proto__'' \<notin> set files \<Longrightarrow> fst ` set (object_literal (map (\<lambda>f. (f, g f)) files)) = set files"
  by (simp add: object_literal_def filter_proto foldl_set_property_keys)

lemma object_literal_distinct:
  "''__proto__'' \<notin> set files \<Longrightarrow> distinct (map fst (object_literal (map (\<lambda>f. (f, g f)) files)))"
  by (simp add: object_literal_def filter_proto foldl_set_property_distinct)

lemma object_literal_entries:
  assumes "''__proto__'' \<notin> set files" and "e \<in> set (object_literal (map (\<lambda>f. (f, g f)) files))"
  shows "snd e = g (fst e) \<and> fst e \<in> set files"
proof -
  from assms have "map_of (object_literal (map (\<lambda>f. (f, g f)) files)) (fst e) = Some (snd e)"
    by (simp add: object_literal_distinct)
  with assms(1) show ?thesis
    by (simp add: object_literal_lookup split: if_splits)
qed

lemma map_of_settle:
  "map_of (settle e rec) p =
     (if p = fst e then (case snd e of ImportResolves i d \<Rightarrow> Some (default_or_self i d) | ImportRejects x \<Rightarrow> map_of rec p)
      else map_of rec p)"
  by (auto simp: settle_def map_of_set_property split: import_result.splits)

lemma keys_settle: "fst e \<in> fst ` set rec \<Longrightarrow> fst ` set (settle e rec) = fst ` set rec"
  by (auto simp: settle_def keys_set_property split: import_result.splits)

lemma distinct_settle: "distinct (map fst rec) \<Longrightarrow> distinct (map fst (settle e rec))"
  by (auto simp: settle_def distinct_set_property split: import_result.splits)

lemma fold_settle_lookup:
  assumes "\<forall>e \<in> set es. snd e = imports (fst e)"
  shows "map_of (fold settle es rec) p =
     (if p \<in> fst ` set es
      then (case imports p of ImportResolves i d \<Rightarrow> Some (default_or_self i d) | ImportRejects x \<Rightarrow> map_of rec p)
      else map_of rec p)"
  using assms
proof (induction es arbitrary: rec)
  case Nil
  then show ?case by simp
next
  case (Cons e es)
  then have IH: "map_of (fold settle es (settle e rec)) p =
     (if p \<in> fst ` set es
      then (case imports p of ImportResolves i d \<Rightarrow> Some (default_or_self i d) | ImportRejects x \<Rightarrow> map_of (settle e rec) p)
      else map_of (settle e rec) p)" by simp
  from Cons.prems have e: "snd e = imports (fst e)" by simp
  show ?case
    using e by (auto simp: IH map_of_settle split: import_result.splits)
qed

lemma fold_settle_keys:
  "fst ` set es \<subseteq> fst ` set rec \<Longrightarrow> fst ` set (fold settle es rec) = fst ` set rec"
proof (induction es arbitrary: rec)
  case Nil
  then show ?case by simp
next
  case (Cons e es)
  then have "fst ` set (settle e rec) = fst ` set rec" by (simp add: keys_settle)
  with Cons show ?case by simp
qed

lemma fold_settle_distinct: "distinct (map fst rec) \<Longrightarrow> distinct (map fst (fold settle es rec))"
  by (induction es arbitrary: rec) (simp_all add: distinct_settle)

lemma settled_value_default_or_self: "settled_value (ImportResolves i d) = default_or_self i d"
proof (cases d)
  case None
  then show ?thesis by simp
next
  case (Some v)
  then show ?thesis by (cases v) simp_all
qed

lemma map_of_None_keys: "map_of rec p = None \<longleftrightarrow> p \<notin> fst ` set rec"
  by (simp add: map_of_eq_None_iff)

lemma loadStories_synthesized:
  assumes "''__proto__'' \<notin> set files"
    and "''then'' \<notin> set files \<or> \<not> callable (settled_value (imp ''then''))"
  shows "\<exists>rec. loadStories imp \<lparr>m_base = b, m_stories = st, m_map = map (\<lambda>f. (f, f)) files, m_record = files\<rparr>
            = Fulfilled rec \<and>
          distinct (map fst rec) \<and> fst ` set rec = set files \<and>
          (\<forall>p \<in> set files. map_of rec p = Some (settled_value (imp p)))"
proof -
  let ?mo = "object_literal (map (\<lambda>f. (f, imp f)) files)"
  let ?ro = "object_literal (map (\<lambda>f. (f, JNull)) files)"
  let ?rec = "fold settle ?mo ?ro"
  have es: "\<forall>e \<in> set ?mo. snd e = imp (fst e)"
    using object_literal_entries[OF assms(1)] by blast
  have mk: "fst ` set ?mo = set files" and rk: "fst ` set ?ro = set files"
    using assms(1) by (simp_all add: object_literal_keys)
  have d: "distinct (map fst ?rec)"
    using assms(1) by (simp add: fold_settle_distinct object_literal_distinct)
  have k: "fst ` set ?rec = set files"
    using fold_settle_keys[of ?mo ?ro] mk rk by simp
  have v: "map_of ?rec p = Some (settled_value (imp p))" if "p \<in> set files" for p
  proof (cases "imp p")
    case (ImportResolves i d)
    with that assms(1) mk show ?thesis
      by (simp add: fold_settle_lookup[OF es] settled_value_default_or_self)
  next
    case (ImportRejects e)
    with that assms(1) mk show ?thesis
      by (simp add: fold_settle_lookup[OF es] object_literal_lookup)
  qed
  have "(case map_of ?rec ''then'' of
           None \<Rightarrow> Fulfilled ?rec
         | Some v \<Rightarrow> if callable v then Follows ?rec else Fulfilled ?rec) = Fulfilled ?rec"
  proof (cases "''then'' \<in> set files")
    case True
    with assms(2) v[of "''then''"] show ?thesis by simp
  next
    case False
    with k have "map_of ?rec ''then'' = None"
      by (simp add: map_of_None_keys)
    then show ?thesis by simp
  qed
  then have run: "loadStories imp \<lparr>m_base = b, m_stories = st, m_map = map (\<lambda>f. (f, f)) files, m_record = files\<rparr>
      = Fulfilled ?rec"
    by (simp add: loadStories_def comp_def Let_def)
  from run d k v show ?thesis by blast
qed

section \<open>Properties of the hooks\<close>

text \<open>
  Claim C7: \<^verbatim>\<open>resolveId\<close> returns the internal id exactly when its input is the
  specifier \<^verbatim>\<open>virtual:bookemoji\<close>, and returns \<^verbatim>\<open>null\<close> for every other input.
\<close>

theorem C7_resolveId:
  "(resolveId source = Some resolvedVirtualModuleId \<longleftrightarrow> source = ''virtual:bookemoji'') \<and>
   (source \<noteq> ''virtual:bookemoji'' \<longrightarrow> resolveId source = None)"
  by (simp add: resolveId_def virtualModuleId_def)

theorem C7_resolveId_witness:
  "resolveId ''virtual:bookemoji'' = Some (CHR 0x00 # ''virtual:bookemoji'') \<and>
   ''./App.svelte'' \<noteq> ''virtual:bookemoji'' \<and> resolveId ''./App.svelte'' = None"
  using C7_resolveId[of "''virtual:bookemoji''"] C7_resolveId[of "''./App.svelte''"]
  by (simp add: resolvedVirtualModuleId_def virtualModuleId_def)

lemma console_log [simp]: "console (log options lvl args s) = console s @ log_entries options lvl args"
  by (simp add: log_def)

lemma log_fields [simp]:
  "config (log options lvl args s) = config s"
  "bookEmojiConfig (log options lvl args s) = bookEmojiConfig s"
  "userGlobPattern (log options lvl args s) = userGlobPattern s"
  "projectRoot (log options lvl args s) = projectRoot s"
  by (simp_all add: log_def)

lemma active_base_log [simp]: "active_base (log options lvl args s) = active_base s"
  by (simp add: active_base_def)

lemma debug_entries_console_log: "e \<in> set (log_entries options Debug args) \<Longrightarrow> fst e = Console_log"
  by (auto split: if_splits)

lemma active_base_foldl_log [simp]:
  "active_base (foldl (\<lambda>st f. log options lvl (args f) st) s files) = active_base s"
  by (induction files arbitrary: s) simp_all

lemma load_try_Inl:
  "fg (glob_normalizer (userGlobPattern s)) (posix_normalize rootDir) = Inl e \<Longrightarrow>
   fst (load_try options fg rootDir s) = Inl e \<and>
   active_base (snd (load_try options fg rootDir s)) = active_base s"
  by (simp add: load_try_def Let_def)

lemma load_never_rejects: "fst (load options fg s ident) \<noteq> Rejected x"
  by (simp add: load_def load_root_not_set_def Let_def split: option.splits prod.splits sum.splits)

text \<open>
  Claim C8: when the directory scan inside \<^verbatim>\<open>load\<close> throws, the error is caught in
  \<^verbatim>\<open>load\<close>. The hook resolves with the module text synthesized for the empty file
  list and the active base, the last line written is an error-level line that
  carries the thrown value, and the promise of \<^verbatim>\<open>load\<close> is not rejected.
\<close>

theorem C8_load_catches_glob_failure:
  assumes "projectRoot s = Some rootDir" and "rootDir \<noteq> []"
    and "fg (glob_normalizer (userGlobPattern s)) (posix_normalize rootDir) = Inl e"
  shows "fst (load options fg s resolvedVirtualModuleId) =
           Fulfilled (Some (createExportStatements (active_base s) [])) \<and>
         last (console (snd (load options fg s resolvedVirtualModuleId))) =
           (Console_error, [Str plugin_prefix, Str ''Error globbing files:'', Val e]) \<and>
         (\<forall>x. fst (load options fg s resolvedVirtualModuleId) \<noteq> Rejected x)"
proof -
  obtain r s1 where t: "load_try options fg rootDir s = (r, s1)"
    by (cases "load_try options fg rootDir s")
  moreover have "fst (load_try options fg rootDir s) = Inl e \<and>
      active_base (snd (load_try options fg rootDir s)) = active_base s"
    using assms(3) by (rule load_try_Inl)
  ultimately have "r = Inl e" "active_base s1 = active_base s"
    by simp_all
  with assms(1,2) t show ?thesis
    by (simp add: load_def)
qed

text \<open>
  An instance: the project root is \<^verbatim>\<open>/proj\<close>, there is no \<^verbatim>\<open>svelte.config.js\<close>, and the
  scan fails with \<^verbatim>\<open>EACCES\<close>.
\<close>

theorem C8_load_catches_glob_failure_witness:
  "projectRoot (snd (configResolved None world_absent sample_config bookEmojiPlugin)) = Some ''/proj'' \<and>
   fg_failing (glob_normalizer (userGlobPattern (snd (configResolved None world_absent sample_config bookEmojiPlugin))))
     (posix_normalize ''/proj'') = Inl (ThrownObject (Some ''EACCES'')) \<and>
   fst (load None fg_failing (snd (configResolved None world_absent sample_config bookEmojiPlugin))
          resolvedVirtualModuleId) = Fulfilled (Some (createExportStatements [] []))"
proof -
  let ?s = "snd (configResolved None world_absent sample_config bookEmojiPlugin)"
  have root: "projectRoot ?s = Some ''/proj''"
    by (simp add: configResolved_def configResolved_try_def world_absent_def sample_config_def Let_def)
  have b: "active_base ?s = []"
    by (simp add: configResolved_def configResolved_try_def world_absent_def sample_config_def Let_def
        active_base_def bookEmojiPlugin_def)
  have f: "fg_failing (glob_normalizer (userGlobPattern ?s)) (posix_normalize ''/proj'') =
      Inl (ThrownObject (Some ''EACCES''))"
    by (simp add: fg_failing_def)
  from C8_load_catches_glob_failure[where s = ?s and rootDir = "''/proj''" and fg = fg_failing
      and e = "ThrownObject (Some ''EACCES'')" and options = None] root b f
  show ?thesis
    by simp
qed

text \<open>
  Claim C9: when \<^verbatim>\<open>svelte.config.js\<close> does not exist at the project root
  (\<^verbatim>\<open>fs.access\<close> rejects with \<^verbatim>\<open>ENOENT\<close>), \<^verbatim>\<open>configResolved\<close> resolves, the glob pattern
  is still \<^verbatim>\<open>./books/stories/**/*.book.svelte\<close>, the active base is the empty string,
  an error-level line is written, and no warn-level line is.
\<close>

theorem C9_no_config_file:
  assumes "fs_access world (root resolvedConfig @ ''/svelte.config.js'') = Some (ThrownObject (Some ''ENOENT''))"
  shows "fst (configResolved options world resolvedConfig bookEmojiPlugin) = Fulfilled () \<and>
         userGlobPattern (snd (configResolved options world resolvedConfig bookEmojiPlugin)) =
           ''./books/stories/**/*.book.svelte'' \<and>
         active_base (snd (configResolved options world resolvedConfig bookEmojiPlugin)) = [] \<and>
         bookEmojiConfig (snd (configResolved options world resolvedConfig bookEmojiPlugin)) = None \<and>
         (Console_error, [Str plugin_prefix, Str ''svelte.config.js not found.''])
            \<in> set (console (snd (configResolved options world resolvedConfig bookEmojiPlugin))) \<and>
         (\<forall>e \<in> set (console (snd (configResolved options world resolvedConfig bookEmojiPlugin))).
            fst e \<noteq> Console_warn)"
  using assms
  by (auto simp: configResolved_def configResolved_try_def Let_def bookEmojiPlugin_def
      defaultGlobPattern_def active_base_def msg_not_found_def dest: debug_entries_console_log)

text \<open>
  An instance: the project root is \<^verbatim>\<open>/proj\<close> and no option is given.
\<close>

theorem C9_no_config_file_witness:
  "fs_access world_absent (root sample_config @ ''/svelte.config.js'') = Some (ThrownObject (Some ''ENOENT'')) \<and>
   configResolved None world_absent sample_config bookEmojiPlugin =
     (Fulfilled (),
      \<lparr>config = Some sample_config, bookEmojiConfig = None,
       userGlobPattern = ''./books/stories/**/*.book.svelte'', projectRoot = Some ''/proj'',
       console = [(Console_error, [Str plugin_prefix, Str ''svelte.config.js not found.''])]\<rparr>)"
  using C9_no_config_file[of world_absent sample_config None]
  by (simp add: configResolved_def configResolved_try_def Let_def bookEmojiPlugin_def
      defaultGlobPattern_def msg_not_found_def world_absent_def sample_config_def log_def debug_on_def)

lemma foldl_log_fields [simp]:
  "projectRoot (foldl (\<lambda>st f. log options lvl (args f) st) s files) = projectRoot s"
  "bookEmojiConfig (foldl (\<lambda>st f. log options lvl (args f) st) s files) = bookEmojiConfig s"
  by (induction files arbitrary: s) simp_all






text \<open>
  Claim C1 at \<^verbatim>\<open>export default { bookemoji: {} }\<close>: \<^verbatim>\<open>configResolved\<close> logs the warning
  and sets the glob pattern to the empty string. \<^verbatim>\<open>load\<close> then hands \<^verbatim>\<open>.\<close> to the glob
  matcher, which is what \<^verbatim>\<open>path.posix.normalize\<close> makes of the empty string: not
  empty, but not the default pattern either. In a project where the default
  pattern finds a story, the module is synthesized without it, whereas the same
  project without a configuration file gets the story.
\<close>

theorem C1_empty_section_globs_dot:
  "userGlobPattern (snd (configResolved None world_empty_section sample_config bookEmojiPlugin)) = [] \<and>
   (Console_warn, [Str plugin_prefix, Str msg_no_stories])
     \<in> set (console (snd (configResolved None world_empty_section sample_config bookEmojiPlugin))) \<and>
   glob_normalizer (userGlobPattern (snd (configResolved None world_empty_section sample_config bookEmojiPlugin)))
     = ''.'' \<and>
   glob_normalizer ''./books/stories/**/*.book.svelte'' = ''books/stories/**/*.book.svelte'' \<and>
   fst (load None fg_default_story (snd (configResolved None world_empty_section sample_config bookEmojiPlugin))
          resolvedVirtualModuleId) = Fulfilled (Some (createExportStatements [] [])) \<and>
   fst (load None fg_default_story (snd (configResolved None world_absent sample_config bookEmojiPlugin))
          resolvedVirtualModuleId) =
     Fulfilled (Some (createExportStatements [] [''./books/stories/a.book.svelte'']))"
proof -
  let ?s = "snd (configResolved None world_empty_section sample_config bookEmojiPlugin)"
  let ?d = "snd (configResolved None world_absent sample_config bookEmojiPlugin)"
  have s: "?s = \<lparr>config = Some sample_config, bookEmojiConfig = Some \<lparr>base = None, stories = None\<rparr>,
       userGlobPattern = [], projectRoot = Some ''/proj'',
       console = [(Console_log, [Str plugin_prefix, Str (msg_config_found Serve [])]),
                  (Console_warn, [Str plugin_prefix, Str msg_no_stories])]\<rparr>"
    by (simp add: configResolved_def configResolved_try_def Let_def bookEmojiPlugin_def
        world_empty_section_def sample_config_def log_def debug_on_def)
  have d: "?d = \<lparr>config = Some sample_config, bookEmojiConfig = None,
       userGlobPattern = ''./books/stories/**/*.book.svelte'', projectRoot = Some ''/proj'',
       console = [(Console_error, [Str plugin_prefix, Str msg_not_found])]\<rparr>"
    by (simp add: configResolved_def configResolved_try_def Let_def bookEmojiPlugin_def
        defaultGlobPattern_def world_absent_def sample_config_def log_def debug_on_def)
  have g0: "glob_normalizer [] = ''.''"
    by (simp add: glob_normalizer_eq posix_normalize_def escape_parens_def escape_char_def)
  have g1: "glob_normalizer ''./books/stories/**/*.book.svelte'' = ''books/stories/**/*.book.svelte''"
    by (simp add: glob_normalizer_eq posix_normalize_def escape_parens_def escape_char_def)
  have l0: "fst (load None fg_default_story ?s resolvedVirtualModuleId) =
      Fulfilled (Some (createExportStatements [] []))"
    unfolding s
    by (simp add: load_def load_try_def Let_def g0 fg_default_story_def sample_config_def
        active_base_def log_def debug_on_def)
  have l1: "fst (load None fg_default_story ?d resolvedVirtualModuleId) =
      Fulfilled (Some (createExportStatements [] [''./books/stories/a.book.svelte'']))"
    unfolding d
    by (simp add: load_def load_try_def Let_def g1 fg_default_story_def sample_config_def
        active_base_def log_def debug_on_def)
  show ?thesis
    using l0 l1 g1 by (simp add: s g0)
qed

section \<open>Properties of the synthesized module\<close>

text \<open>
  Claim C4, as stated, fails wherever a spliced string meets the end of its
  literal. A path with a single quote, such as \<^verbatim>\<open>./it's.book.svelte\<close>, ends the
  single-quoted import target early, and a base with a double quote ends the
  literal of \<^verbatim>\<open>base\<close> early: the text is not a module and defines no \<^verbatim>\<open>stories\<close>
  object. The same holds for a double quote or a line terminator in a path and
  for a line terminator or a backslash in the base; a backslash in a path starts
  an escape sequence, so the key is not the path. It also fails for the path
  \<^verbatim>\<open>__proto__\<close>: the text is a module, but in its \<^verbatim>\<open>stories\<close> literal that entry sets
  the prototype and the object has no key.
\<close>

theorem C4_counterexample:
  "distinct [''./it'' @ [sq] @ ''s.book.svelte''] \<and>
   \<not> stories_as_claimed [''./it'' @ [sq] @ ''s.book.svelte'']
        (createExportStatements ''/docs'' [''./it'' @ [sq] @ ''s.book.svelte'']) \<and>
   distinct [''./a.book.svelte''] \<and>
   \<not> stories_as_claimed [''./a.book.svelte'']
        (createExportStatements (''/docs'' @ [dq]) [''./a.book.svelte'']) \<and>
   \<not> stories_as_claimed [[dq]] (createExportStatements [] [[dq]]) \<and>
   \<not> stories_as_claimed [''./a'' @ [bsl] @ ''b''] (createExportStatements [] [''./a'' @ [bsl] @ ''b'']) \<and>
   \<not> stories_as_claimed [[nl]] (createExportStatements [] [[nl]]) \<and>
   \<not> stories_as_claimed [[cr]] (createExportStatements [] [[cr]]) \<and>
   \<not> stories_as_claimed [''./a.book.svelte''] (createExportStatements [bsl] [''./a.book.svelte'']) \<and>
   \<not> stories_as_claimed [''./a.book.svelte''] (createExportStatements [nl] [''./a.book.svelte'']) \<and>
   \<not> stories_as_claimed [''./a.book.svelte''] (createExportStatements [cr] [''./a.book.svelte'']) \<and>
   distinct [''__proto__''] \<and>
   read_module (createExportStatements [] [''__proto__'']) \<noteq> None \<and>
   \<not> stories_as_claimed [''__proto__''] (createExportStatements [] [''__proto__''])"
  by code_simp

text \<open>
  Claim C4, amended: for every list of distinct paths that contain no double
  quote, single quote, backslash or line terminator and are not \<^verbatim>\<open>__proto__\<close>, and
  every base that contains no double quote, backslash or line terminator, the
  synthesized text is a module whose \<^verbatim>\<open>stories\<close> literal has the given paths as its
  quoted keys, in the order of the list, each with the import of that same path;
  the object the literal evaluates to has exactly the given paths as its keys,
  one property for each, and every key holds the import of that same path.
\<close>

theorem C4_stories_keys:
  assumes "distinct files" and "plain_base b" and "\<forall>f \<in> set files. plain_path f"
    and "''__proto__'' \<notin> set files"
  shows "stories_as_claimed files (createExportStatements b files) \<and>
         map_option m_stories (read_module (createExportStatements b files)) =
           Some (map (\<lambda>f. (f, f)) files) \<and>
         map_option (\<lambda>m. length (object_literal (m_stories m)))
           (read_module (createExportStatements b files)) = Some (length files) \<and>
         (\<forall>p \<in> set files.
            map_option (\<lambda>m. map_of (object_literal (m_stories m)) p)
              (read_module (createExportStatements b files)) = Some (Some p))"
proof -
  let ?obj = "object_literal (map (\<lambda>f. (f, f)) files)"
  have "filter (\<lambda>k. k = ''__proto__'') files = []"
    using assms(4) by (auto simp: filter_empty_conv)
  then have "proto_ok files"
    by (simp add: proto_ok_def)
  with assms(2,3) have m: "read_module (createExportStatements b files) =
      Some \<lparr>m_base = b, m_stories = map (\<lambda>f. (f, f)) files,
            m_map = map (\<lambda>f. (f, f)) files, m_record = files\<rparr>"
    by (rule read_module_createExportStatements)
  have keys: "fst ` set ?obj = set files"
    using assms(4) by (rule object_literal_keys)
  have vals: "snd e = fst e" if "e \<in> set ?obj" for e
    using object_literal_entries[OF assms(4) that] by simp
  have look: "map_of ?obj p = Some p" if "p \<in> set files" for p
    using that object_literal_lookup[OF assms(4), where g = "\<lambda>f. f" and k = p] by simp
  have "distinct (map fst ?obj)"
    using assms(4) by (rule object_literal_distinct)
  then have "length ?obj = card (fst ` set ?obj)"
    using distinct_card[of "map fst ?obj"] by simp
  also have "\<dots> = length files"
    using keys assms(1) by (simp add: distinct_card)
  finally have len: "length ?obj = length files" .
  from m keys vals look len show ?thesis
    by (simp add: stories_as_claimed_def)
qed

text \<open>
  An instance: two stories under the base \<^verbatim>\<open>/docs\<close>.
\<close>

theorem C4_stories_keys_witness:
  "distinct [''./a.book.svelte'', ''./b.book.svelte''] \<and> plain_base ''/docs'' \<and>
   plain_path ''./a.book.svelte'' \<and> plain_path ''./b.book.svelte'' \<and>
   ''__proto__'' \<notin> set [''./a.book.svelte'', ''./b.book.svelte''] \<and>
   map_option m_stories
     (read_module (createExportStatements ''/docs'' [''./a.book.svelte'', ''./b.book.svelte''])) =
     Some [(''./a.book.svelte'', ''./a.book.svelte''), (''./b.book.svelte'', ''./b.book.svelte'')] \<and>
   map_option (\<lambda>m. length (object_literal (m_stories m)))
     (read_module (createExportStatements ''/docs'' [''./a.book.svelte'', ''./b.book.svelte''])) = Some 2 \<and>
   map_option (\<lambda>m. map_of (object_literal (m_stories m)) ''./a.book.svelte'')
     (read_module (createExportStatements ''/docs'' [''./a.book.svelte'', ''./b.book.svelte''])) =
     Some (Some ''./a.book.svelte'') \<and>
   map_option (\<lambda>m. map_of (object_literal (m_stories m)) ''./b.book.svelte'')
     (read_module (createExportStatements ''/docs'' [''./a.book.svelte'', ''./b.book.svelte''])) =
     Some (Some ''./b.book.svelte'')"
  using C4_stories_keys[of "[''./a.book.svelte'', ''./b.book.svelte'']" "''/docs''"]
  by (simp add: plain_base_def plain_path_def dq_def sq_def bsl_def nl_def cr_def numeral_2_eq_2)

text \<open>
  Claim C5, as stated, fails in four ways. A path with a quote or a line
  terminator, and a base with a double quote, a backslash or a line terminator,
  give a text that is not a module, so there is no \<^verbatim>\<open>loadStories\<close> to call; a
  backslash in a path starts an escape sequence, so the key is not the path. The
  path \<^verbatim>\<open>__proto__\<close> sets the prototype of the two object literals and is no key of
  the returned record. A module whose default export is \<^verbatim>\<open>null\<close> or \<^verbatim>\<open>undefined\<close> is
  stored as the whole module object, because \<^verbatim>\<open>??\<close> falls back on both. And for the
  path \<^verbatim>\<open>then\<close> with a default export that is a function, the returned record is a
  thenable: the promise of \<^verbatim>\<open>loadStories\<close> is not fulfilled with the record but
  follows that function.
\<close>

theorem C5_counterexample:
  "\<not> loads_as_claimed imports_mixed [''./a'' @ [dq] @ ''.book.svelte'']
        (createExportStatements [] [''./a'' @ [dq] @ ''.book.svelte'']) \<and>
   \<not> loads_as_claimed imports_mixed [[sq]] (createExportStatements [] [[sq]]) \<and>
   \<not> loads_as_claimed imports_mixed [''./a'' @ [bsl] @ ''b''] (createExportStatements [] [''./a'' @ [bsl] @ ''b'']) \<and>
   \<not> loads_as_claimed imports_mixed [[nl]] (createExportStatements [] [[nl]]) \<and>
   \<not> loads_as_claimed imports_mixed [[cr]] (createExportStatements [] [[cr]]) \<and>
   \<not> loads_as_claimed imports_mixed [] (createExportStatements [dq] []) \<and>
   \<not> loads_as_claimed imports_mixed [] (createExportStatements [bsl] []) \<and>
   \<not> loads_as_claimed imports_mixed [] (createExportStatements [nl] []) \<and>
   \<not> loads_as_claimed imports_mixed [] (createExportStatements [cr] []) \<and>
   \<not> loads_as_claimed imports_mixed [''__proto__''] (createExportStatements [] [''__proto__'']) \<and>
   \<not> loads_as_claimed imports_null_default [''./c.book.svelte'']
        (createExportStatements [] [''./c.book.svelte'']) \<and>
   \<not> loads_as_claimed imports_undefined_default [''./c.book.svelte'']
        (createExportStatements [] [''./c.book.svelte'']) \<and>
   run_loadStories imports_function_default (createExportStatements [] [''then'']) =
     Some (Follows [(''then'', JFunction 7)]) \<and>
   \<not> loads_as_claimed imports_function_default [''then''] (createExportStatements [] [''then''])"
  by code_simp

text \<open>
  Claim C5, amended: for every base that contains no double quote, backslash or
  line terminator, every list of paths that contain no double quote, single
  quote, backslash or line terminator and are not \<^verbatim>\<open>__proto__\<close>, and every way the
  imports settle in which the path \<^verbatim>\<open>then\<close>, if it is in the list, does not end up
  holding a function, \<^verbatim>\<open>loadStories\<close> is fulfilled with the record and is not
  rejected. The keys of the record are exactly the listed paths, and each path
  holds \<^verbatim>\<open>null\<close> if its import rejected, the whole module object if the module has
  no default export or one that is \<^verbatim>\<open>null\<close> or \<^verbatim>\<open>undefined\<close>, and the default export
  otherwise.
\<close>

theorem C5_loadStories_settles:
  assumes "plain_base b" and "\<forall>f \<in> set files. plain_path f" and "''__proto__'' \<notin> set files"
    and "''then'' \<notin> set files \<or> \<not> callable (settled_value (imports ''then''))"
  shows "\<exists>rec. run_loadStories imports (createExportStatements b files) = Some (Fulfilled rec) \<and>
           distinct (map fst rec) \<and> fst ` set rec = set files \<and>
           (\<forall>p \<in> set files. map_of rec p = Some (settled_value (imports p)))"
proof -
  have "filter (\<lambda>k. k = ''__proto__'') files = []"
    using assms(3) by (auto simp: filter_empty_conv)
  then have "proto_ok files"
    by (simp add: proto_ok_def)
  with assms(1,2) have m: "read_module (createExportStatements b files) =
      Some \<lparr>m_base = b, m_stories = map (\<lambda>f. (f, f)) files,
            m_map = map (\<lambda>f. (f, f)) files, m_record = files\<rparr>"
    by (rule read_module_createExportStatements)
  from loadStories_synthesized[where files = files and imp = "imports" and b = b
      and st = "map (\<lambda>f. (f, f)) files"] assms(3,4) m
  show ?thesis
    by (simp add: run_loadStories_def)
qed

text \<open>
  An instance: the first import rejects, the second resolves to a module without a
  default export, the third to a module whose default export is a component
  function, the fourth and fifth to modules whose default export is \<^verbatim>\<open>null\<close> and
  \<^verbatim>\<open>undefined\<close>.
\<close>

theorem C5_loadStories_settles_witness:
  "plain_base ''/docs'' \<and> plain_path ''./a.book.svelte'' \<and> plain_path ''./b.book.svelte'' \<and>
   plain_path ''./c.book.svelte'' \<and> plain_path ''./d.book.svelte'' \<and> plain_path ''./e.book.svelte'' \<and>
   ''__proto__'' \<notin> set [''./a.book.svelte'', ''./b.book.svelte'', ''./c.book.svelte'',
                          ''./d.book.svelte'', ''./e.book.svelte''] \<and>
   ''then'' \<notin> set [''./a.book.svelte'', ''./b.book.svelte'', ''./c.book.svelte'',
                     ''./d.book.svelte'', ''./e.book.svelte''] \<and>
   (\<exists>rec. run_loadStories imports_mixed
       (createExportStatements ''/docs'' [''./a.book.svelte'', ''./b.book.svelte'', ''./c.book.svelte'',
                                          ''./d.book.svelte'', ''./e.book.svelte''])
       = Some (Fulfilled rec) \<and>
       map_of rec ''./a.book.svelte'' = Some JNull \<and>
       map_of rec ''./b.book.svelte'' = Some (JModule 1 None) \<and>
       map_of rec ''./c.book.svelte'' = Some (JFunction 7) \<and>
       map_of rec ''./d.book.svelte'' = Some (JModule 3 (Some JNull)) \<and>
       map_of rec ''./e.book.svelte'' = Some (JModule 4 (Some JUndefined)))"
  using C5_loadStories_settles[of "''/docs''"
      "[''./a.book.svelte'', ''./b.book.svelte'', ''./c.book.svelte'', ''./d.book.svelte'', ''./e.book.svelte'']"
      imports_mixed]
  by (auto simp: plain_base_def plain_path_def dq_def sq_def bsl_def nl_def cr_def imports_mixed_def)




end
